theory Spec2Isabelle
  imports Complex_Main
begin

section \<open>Python values and exceptions\<close>

text \<open>
  The values \<open>json.load\<close> produces, which are also the values stored in the rows the
  extractors build (a row is a Python dict whose values are strings, ints and whatever
  the payload held). A JSON object is the dict's item list in insertion order; looking a
  key up reads the first item with that key. A finite float is a real number: the
  extractors only copy floats and test them against zero.
\<close>

datatype json =
    JNull
  | JBool bool
  | JInt int
  | JFloat real
  | JStr string
  | JArr "json list"
  | JObj "(string \<times> json) list"

text \<open>
  The exceptions the modelled code can meet. The subclass relations of Python are not
  needed: every \<open>except\<close> clause of the source either lists the classes it catches or
  catches \<open>Exception\<close>, which all of these are.
\<close>

datatype py_error =
    JSONDecodeError
  | KeyError
  | IndexError
  | TypeError
  | ValueError
  | OSError
  | DatabaseError

definition py_bind :: "py_error + 'a \<Rightarrow> ('a \<Rightarrow> py_error + 'b) \<Rightarrow> py_error + 'b" where
  "py_bind m f = (case m of Inl e \<Rightarrow> Inl e | Inr v \<Rightarrow> f v)"

text \<open>\<open>k in s\<close> for two strings: \<open>k\<close> occurs in \<open>s\<close> as a contiguous substring.\<close>

fun is_substr :: "string \<Rightarrow> string \<Rightarrow> bool" where
  "is_substr k [] = (k = [])"
| "is_substr k (c # cs) = (take (length k) (c # cs) = k \<or> is_substr k cs)"

text \<open>
  \<open>k in v\<close> with a string \<open>k\<close>: key membership for a dict, element membership for a
  list, substring test for a string, TypeError for anything else.
\<close>

fun py_contains :: "string \<Rightarrow> json \<Rightarrow> py_error + bool" where
  "py_contains k (JObj kvs) = Inr (map_of kvs k \<noteq> None)"
| "py_contains k (JArr xs) = Inr (List.member xs (JStr k))"
| "py_contains k (JStr s) = Inr (is_substr k s)"
| "py_contains k _ = Inl TypeError"

text \<open>\<open>v[k]\<close> with a string \<open>k\<close>: only a dict can be indexed by a string.\<close>

fun py_getitem :: "json \<Rightarrow> string \<Rightarrow> py_error + json" where
  "py_getitem (JObj kvs) k = (case map_of kvs k of None \<Rightarrow> Inl KeyError | Some v \<Rightarrow> Inr v)"
| "py_getitem _ k = Inl TypeError"

text \<open>
  \<open>v[0]\<close>: the first element of a list or the first character of a string (IndexError
  when empty); a dict loaded from JSON has string keys only, so \<open>0\<close> is never a key.
\<close>

fun py_getitem0 :: "json \<Rightarrow> py_error + json" where
  "py_getitem0 (JArr []) = Inl IndexError"
| "py_getitem0 (JArr (x # xs)) = Inr x"
| "py_getitem0 (JStr []) = Inl IndexError"
| "py_getitem0 (JStr (c # cs)) = Inr (JStr [c])"
| "py_getitem0 (JObj kvs) = Inl KeyError"
| "py_getitem0 _ = Inl TypeError"

text \<open>The truth value of a Python object, as \<open>if v\<close> and \<open>a and v\<close> test it.\<close>

fun py_truthy :: "json \<Rightarrow> bool" where
  "py_truthy JNull = False"
| "py_truthy (JBool b) = b"
| "py_truthy (JInt i) = (i \<noteq> 0)"
| "py_truthy (JFloat r) = (r \<noteq> 0)"
| "py_truthy (JStr s) = (s \<noteq> [])"
| "py_truthy (JArr xs) = (xs \<noteq> [])"
| "py_truthy (JObj kvs) = (kvs \<noteq> [])"

text \<open>
  The elements a \<open>for\<close> loop over \<open>v\<close> visits: the elements of a list, the keys of a
  dict, the characters of a string; anything else is not iterable.
\<close>

fun py_iter :: "json \<Rightarrow> py_error + json list" where
  "py_iter (JArr xs) = Inr xs"
| "py_iter (JObj kvs) = Inr (map (\<lambda>kv. JStr (fst kv)) kvs)"
| "py_iter (JStr s) = Inr (map (\<lambda>c. JStr [c]) s)"
| "py_iter _ = Inl TypeError"

subsection \<open>\<open>int(s)\<close> on a string\<close>

text \<open>
  \<open>int\<close> on an ASCII string strips surrounding whitespace (the characters 9 to 13 and the
  space, 32), reads an optional sign and then decimal digits, which single underscores
  may separate. Anything else raises ValueError, and so does a string of more than 4300
  digits, the interpreter's default limit. The model covers ASCII names; digits and
  spaces of other scripts are left out.
\<close>

definition is_space :: "char \<Rightarrow> bool" where
  "is_space c = (let n = (of_char c :: nat) in (9 \<le> n \<and> n \<le> 13) \<or> n = 32)"

definition is_digit :: "char \<Rightarrow> bool" where
  "is_digit c = (let n = (of_char c :: nat) in 48 \<le> n \<and> n \<le> 57)"

definition digit_val :: "char \<Rightarrow> nat" where
  "digit_val c = (of_char c :: nat) - 48"

fun parse_digits :: "nat \<Rightarrow> bool \<Rightarrow> string \<Rightarrow> nat option" where
  "parse_digits acc prev [] = (if prev then Some acc else None)"
| "parse_digits acc prev (c # cs) =
     (if is_digit c then parse_digits (10 * acc + digit_val c) True cs
      else if c = CHR ''_'' \<and> prev then parse_digits acc False cs
      else None)"

definition strip :: "string \<Rightarrow> string" where
  "strip s = rev (dropWhile is_space (rev (dropWhile is_space s)))"

definition int_max_str_digits :: nat where
  "int_max_str_digits = 4300"

text \<open>The digits after the sign: their value, unless they are malformed or too many.\<close>

definition parse_magnitude :: "string \<Rightarrow> py_error + nat" where
  "parse_magnitude cs =
     (case parse_digits 0 False cs of
        None \<Rightarrow> Inl ValueError
      | Some n \<Rightarrow>
          if int_max_str_digits < length (filter is_digit cs) then Inl ValueError else Inr n)"

definition py_int :: "string \<Rightarrow> py_error + int" where
  "py_int s =
     (case strip s of
        [] \<Rightarrow> Inl ValueError
      | c # cs \<Rightarrow>
          if c = CHR ''-'' then
            (case parse_magnitude cs of Inl e \<Rightarrow> Inl e | Inr n \<Rightarrow> Inr (- int n))
          else if c = CHR ''+'' then
            (case parse_magnitude cs of Inl e \<Rightarrow> Inl e | Inr n \<Rightarrow> Inr (int n))
          else
            (case parse_magnitude (c # cs) of Inl e \<Rightarrow> Inl e | Inr n \<Rightarrow> Inr (int n)))"

text \<open>\<open>name.split('.')[0]\<close>: the part of the name before its first dot.\<close>

definition split_dot_0 :: "string \<Rightarrow> string" where
  "split_dot_0 name = takeWhile (\<lambda>c. c \<noteq> CHR ''.'') name"

definition endswith :: "string \<Rightarrow> string \<Rightarrow> bool" where
  "endswith name suffix = (length suffix \<le> length name \<and> drop (length name - length suffix) name = suffix)"

section \<open>The file system\<close>

text \<open>
  A directory lists its entries by name, in the order \<open>os.listdir\<close> returns them. A
  regular file carries what \<open>json.load\<close> does on it when it is opened: the parsed value
  or the exception raised (JSONDecodeError for malformed JSON). A path is the list of
  the components \<open>os.path.join\<close> puts together, resolved from the working directory.
\<close>

datatype node =
    File "py_error + json"
  | Dir "(string \<times> node) list"

type_synonym path = "string list"

fun resolve :: "node \<Rightarrow> path \<Rightarrow> node option" where
  "resolve n [] = Some n"
| "resolve (File r) (c # cs) = None"
| "resolve (Dir es) (c # cs) = (case map_of es c of None \<Rightarrow> None | Some n \<Rightarrow> resolve n cs)"

definition os_path_exists :: "node \<Rightarrow> path \<Rightarrow> bool" where
  "os_path_exists fs p = (resolve fs p \<noteq> None)"

definition os_path_isdir :: "node \<Rightarrow> path \<Rightarrow> bool" where
  "os_path_isdir fs p = (case resolve fs p of Some (Dir es) \<Rightarrow> True | _ \<Rightarrow> False)"

definition os_listdir :: "node \<Rightarrow> path \<Rightarrow> py_error + string list" where
  "os_listdir fs p =
     (case resolve fs p of Some (Dir es) \<Rightarrow> Inr (map fst es) | _ \<Rightarrow> Inl OSError)"

text \<open>\<open>with open(p) as f: json.load(f)\<close>; opening a directory or a missing file fails.\<close>

definition open_json_load :: "node \<Rightarrow> path \<Rightarrow> py_error + json" where
  "open_json_load fs p = (case resolve fs p of Some (File r) \<Rightarrow> r | _ \<Rightarrow> Inl OSError)"

section \<open>Rows, printed output and the walk state\<close>

text \<open>
  A row is the dict an extractor appends: its items in the order the dict literal
  writes them. A data frame built from the list of rows is that list; it is
  \<open>empty\<close> when the list is.
\<close>

type_synonym row = "(string \<times> json) list"

datatype msg =
    PathNotFound path
  | ProcessingStates nat string
  | ErrorProcessing path py_error
  | SettingUpDatabase
  | RepositoryNotFound
  | ProcessingCategory string
  | Loaded nat string
  | SetupCompleted
  | ErrorSettingUp py_error
  | StError py_error

record walk_state =
  acc_data :: "row list"
  acc_out :: "msg list"

text \<open>
  The body of a \<open>try\<close> block works on \<open>data\<close> and either finishes or raises: the rows
  appended before the exception stay in \<open>data\<close>.
\<close>

type_synonym file_body = "string \<Rightarrow> string \<Rightarrow> string \<Rightarrow> json \<Rightarrow> row list \<Rightarrow> row list \<times> py_error option"

text \<open>
  \<open>for x in xs: body\<close> where the body may raise: the loop stops at the first exception
  and keeps what was appended so far.
\<close>

fun for_each :: "('a \<Rightarrow> row list \<Rightarrow> row list \<times> py_error option) \<Rightarrow> 'a list \<Rightarrow> row list \<Rightarrow> row list \<times> py_error option" where
  "for_each body [] data = (data, None)"
| "for_each body (x # xs) data =
     (case body x data of
        (data', Some e) \<Rightarrow> (data', Some e)
      | (data', None) \<Rightarrow> for_each body xs data')"

section \<open>The three extractors\<close>

subsection \<open>Aggregated transactions\<close>

text \<open>
  The dict literal of \<open>data.append\<close>, its values evaluated in the order written:
  \<open>int(year)\<close>, \<open>int(quarter_file.split('.')[0])\<close>, \<open>transaction['name']\<close>, then count and
  amount of \<open>transaction['paymentInstruments'][0]\<close>.
\<close>

definition transaction_row :: "string \<Rightarrow> string \<Rightarrow> string \<Rightarrow> json \<Rightarrow> py_error + row" where
  "transaction_row state year quarter_file transaction =
     py_bind (py_int year) (\<lambda>y.
     py_bind (py_int (split_dot_0 quarter_file)) (\<lambda>q.
     py_bind (py_getitem transaction ''name'') (\<lambda>name.
     py_bind (py_bind (py_bind (py_getitem transaction ''paymentInstruments'') py_getitem0)
                (\<lambda>i. py_getitem i ''count'')) (\<lambda>cnt.
     py_bind (py_bind (py_bind (py_getitem transaction ''paymentInstruments'') py_getitem0)
                (\<lambda>i. py_getitem i ''amount'')) (\<lambda>amount.
     Inr [(''state'', JStr state), (''year'', JInt y), (''quarter'', JInt q),
          (''transaction_type'', name), (''transaction_count'', cnt),
          (''transaction_amount'', amount)])))))"

text \<open>
  One turn of \<open>for transaction in ...\<close>:
  \<open>if 'paymentInstruments' in transaction and transaction['paymentInstruments']\<close>.
\<close>

definition transaction_entry :: "string \<Rightarrow> string \<Rightarrow> string \<Rightarrow> json \<Rightarrow> row list \<Rightarrow> row list \<times> py_error option" where
  "transaction_entry state year quarter_file transaction data =
     (case py_bind (py_contains ''paymentInstruments'' transaction)
             (\<lambda>b. if b then py_bind (py_getitem transaction ''paymentInstruments'') (\<lambda>v. Inr (py_truthy v))
                   else Inr False) of
        Inl e \<Rightarrow> (data, Some e)
      | Inr b \<Rightarrow>
          if b then
            (case transaction_row state year quarter_file transaction of
               Inl e \<Rightarrow> (data, Some e)
             | Inr r \<Rightarrow> (data @ [r], None))
          else (data, None))"

text \<open>The \<open>try\<close> body after \<open>d = json.load(f)\<close>.\<close>

definition transaction_file :: file_body where
  "transaction_file state year quarter_file d data =
     (case py_bind (py_contains ''data'' d)
             (\<lambda>b. if b then py_bind (py_getitem d ''data'') (py_contains ''transactionData'')
                   else Inr False) of
        Inl e \<Rightarrow> (data, Some e)
      | Inr b \<Rightarrow>
          if b then
            (case py_bind (py_bind (py_getitem d ''data'') (\<lambda>dd. py_getitem dd ''transactionData'')) py_iter of
               Inl e \<Rightarrow> (data, Some e)
             | Inr ts \<Rightarrow> for_each (transaction_entry state year quarter_file) ts data)
          else (data, None))"

subsection \<open>Aggregated users\<close>

definition user_row :: "string \<Rightarrow> string \<Rightarrow> string \<Rightarrow> json \<Rightarrow> json \<Rightarrow> json \<Rightarrow> py_error + row" where
  "user_row state year quarter_file registered_users app_opens device_data =
     py_bind (py_int year) (\<lambda>y.
     py_bind (py_int (split_dot_0 quarter_file)) (\<lambda>q.
     py_bind (py_getitem device_data ''brand'') (\<lambda>brand.
     py_bind (py_getitem device_data ''count'') (\<lambda>cnt.
     py_bind (py_getitem device_data ''percentage'') (\<lambda>percentage.
     Inr [(''state'', JStr state), (''year'', JInt y), (''quarter'', JInt q),
          (''registered_users'', registered_users), (''app_opens'', app_opens),
          (''brand'', brand), (''count'', cnt), (''percentage'', percentage)])))))"

definition user_other_row :: "string \<Rightarrow> string \<Rightarrow> string \<Rightarrow> json \<Rightarrow> json \<Rightarrow> py_error + row" where
  "user_other_row state year quarter_file registered_users app_opens =
     py_bind (py_int year) (\<lambda>y.
     py_bind (py_int (split_dot_0 quarter_file)) (\<lambda>q.
     Inr [(''state'', JStr state), (''year'', JInt y), (''quarter'', JInt q),
          (''registered_users'', registered_users), (''app_opens'', app_opens),
          (''brand'', JStr ''Other''), (''count'', JInt 0), (''percentage'', JInt 0)]))"

definition user_entry :: "string \<Rightarrow> string \<Rightarrow> string \<Rightarrow> json \<Rightarrow> json \<Rightarrow> json \<Rightarrow> row list \<Rightarrow> row list \<times> py_error option" where
  "user_entry state year quarter_file registered_users app_opens device_data data =
     (case user_row state year quarter_file registered_users app_opens device_data of
        Inl e \<Rightarrow> (data, Some e)
      | Inr r \<Rightarrow> (data @ [r], None))"

definition user_file :: file_body where
  "user_file state year quarter_file d data =
     (case py_bind (py_contains ''data'' d)
             (\<lambda>b. if b then py_bind (py_getitem d ''data'') (py_contains ''aggregated'')
                   else Inr False) of
        Inl e \<Rightarrow> (data, Some e)
      | Inr b \<Rightarrow>
          if b then
            (case py_bind (py_bind (py_getitem d ''data'') (\<lambda>dd. py_getitem dd ''aggregated''))
                    (\<lambda>a. py_getitem a ''registeredUsers'') of
               Inl e \<Rightarrow> (data, Some e)
             | Inr registered_users \<Rightarrow>
                 (case py_bind (py_bind (py_getitem d ''data'') (\<lambda>dd. py_getitem dd ''aggregated''))
                         (\<lambda>a. py_getitem a ''appOpens'') of
                    Inl e \<Rightarrow> (data, Some e)
                  | Inr app_opens \<Rightarrow>
                      (case py_bind (py_bind (py_getitem d ''data'') (py_contains ''usersByDevice''))
                              (\<lambda>b. if b then py_bind (py_bind (py_getitem d ''data'') (\<lambda>dd. py_getitem dd ''usersByDevice''))
                                                (\<lambda>v. Inr (py_truthy v))
                                    else Inr False) of
                         Inl e \<Rightarrow> (data, Some e)
                       | Inr b' \<Rightarrow>
                           if b' then
                             (case py_bind (py_bind (py_getitem d ''data'') (\<lambda>dd. py_getitem dd ''usersByDevice'')) py_iter of
                                Inl e \<Rightarrow> (data, Some e)
                              | Inr ds \<Rightarrow> for_each (user_entry state year quarter_file registered_users app_opens) ds data)
                           else
                             (case user_other_row state year quarter_file registered_users app_opens of
                                Inl e \<Rightarrow> (data, Some e)
                              | Inr r \<Rightarrow> (data @ [r], None)))))
          else (data, None))"

subsection \<open>Map transactions\<close>

definition map_row :: "string \<Rightarrow> string \<Rightarrow> string \<Rightarrow> json \<Rightarrow> py_error + row" where
  "map_row state year quarter_file district =
     py_bind (py_int year) (\<lambda>y.
     py_bind (py_int (split_dot_0 quarter_file)) (\<lambda>q.
     py_bind (py_getitem district ''name'') (\<lambda>name.
     py_bind (py_bind (py_bind (py_getitem district ''metric'') py_getitem0)
                (\<lambda>m. py_getitem m ''count'')) (\<lambda>cnt.
     py_bind (py_bind (py_bind (py_getitem district ''metric'') py_getitem0)
                (\<lambda>m. py_getitem m ''amount'')) (\<lambda>amount.
     Inr [(''state'', JStr state), (''year'', JInt y), (''quarter'', JInt q),
          (''district'', name), (''transaction_count'', cnt),
          (''transaction_amount'', amount)])))))"

definition map_entry :: "string \<Rightarrow> string \<Rightarrow> string \<Rightarrow> json \<Rightarrow> row list \<Rightarrow> row list \<times> py_error option" where
  "map_entry state year quarter_file district data =
     (case py_bind (py_contains ''metric'' district)
             (\<lambda>b. if b then py_bind (py_getitem district ''metric'') (\<lambda>v. Inr (py_truthy v))
                   else Inr False) of
        Inl e \<Rightarrow> (data, Some e)
      | Inr b \<Rightarrow>
          if b then
            (case map_row state year quarter_file district of
               Inl e \<Rightarrow> (data, Some e)
             | Inr r \<Rightarrow> (data @ [r], None))
          else (data, None))"

definition map_file :: file_body where
  "map_file state year quarter_file d data =
     (case py_bind (py_contains ''data'' d)
             (\<lambda>b. if b then py_bind (py_getitem d ''data'') (py_contains ''hoverDataList'')
                   else Inr False) of
        Inl e \<Rightarrow> (data, Some e)
      | Inr b \<Rightarrow>
          if b then
            (case py_bind (py_bind (py_getitem d ''data'') (\<lambda>dd. py_getitem dd ''hoverDataList'')) py_iter of
               Inl e \<Rightarrow> (data, Some e)
             | Inr ds \<Rightarrow> for_each (map_entry state year quarter_file) ds data)
          else (data, None))"

section \<open>The walk over states, years and quarter files\<close>

text \<open>
  The three extractors walk the tree with the same three nested loops and the same
  \<open>try\<close>/\<open>except\<close>; they differ in the root path, in what they print and in the body of
  the \<open>try\<close>, which is the parameter \<open>body\<close> here.

  \<open>except (json.JSONDecodeError, KeyError, IndexError)\<close> prints the error and goes on
  with the next file; any other exception leaves the loops.
\<close>

definition caught :: "py_error \<Rightarrow> bool" where
  "caught e = (e = JSONDecodeError \<or> e = KeyError \<or> e = IndexError)"

text \<open>The \<open>try\<close> block: open the file, load it, run the extractor's body on the payload.\<close>

definition try_block :: "node \<Rightarrow> file_body \<Rightarrow> string \<Rightarrow> string \<Rightarrow> string \<Rightarrow> path \<Rightarrow> row list \<Rightarrow> row list \<times> py_error option" where
  "try_block fs body state year quarter_file quarter_path data =
     (case open_json_load fs quarter_path of
        Inl e \<Rightarrow> (data, Some e)
      | Inr d \<Rightarrow> body state year quarter_file d data)"

definition try_file :: "node \<Rightarrow> file_body \<Rightarrow> string \<Rightarrow> string \<Rightarrow> string \<Rightarrow> path \<Rightarrow> walk_state \<Rightarrow> walk_state \<times> py_error option" where
  "try_file fs body state year quarter_file quarter_path st =
     (case try_block fs body state year quarter_file quarter_path (acc_data st) of
        (data', None) \<Rightarrow> (st\<lparr>acc_data := data'\<rparr>, None)
      | (data', Some e) \<Rightarrow>
          if caught e then (st\<lparr>acc_data := data', acc_out := acc_out st @ [ErrorProcessing quarter_path e]\<rparr>, None)
          else (st\<lparr>acc_data := data'\<rparr>, Some e))"

fun quarter_loop :: "node \<Rightarrow> file_body \<Rightarrow> string \<Rightarrow> string \<Rightarrow> path \<Rightarrow> string list \<Rightarrow> walk_state \<Rightarrow> walk_state \<times> py_error option" where
  "quarter_loop fs body state year year_path [] st = (st, None)"
| "quarter_loop fs body state year year_path (quarter_file # rest) st =
     (if endswith quarter_file ''.json'' then
        (case try_file fs body state year quarter_file (year_path @ [quarter_file]) st of
           (st', Some e) \<Rightarrow> (st', Some e)
         | (st', None) \<Rightarrow> quarter_loop fs body state year year_path rest st')
      else quarter_loop fs body state year year_path rest st)"

fun year_loop :: "node \<Rightarrow> file_body \<Rightarrow> string \<Rightarrow> path \<Rightarrow> string list \<Rightarrow> walk_state \<Rightarrow> walk_state \<times> py_error option" where
  "year_loop fs body state state_path [] st = (st, None)"
| "year_loop fs body state state_path (year # rest) st =
     (if \<not> os_path_isdir fs (state_path @ [year]) then year_loop fs body state state_path rest st
      else
        (case os_listdir fs (state_path @ [year]) of
           Inl e \<Rightarrow> (st, Some e)
         | Inr files \<Rightarrow>
             (case quarter_loop fs body state year (state_path @ [year]) files st of
                (st', Some e) \<Rightarrow> (st', Some e)
              | (st', None) \<Rightarrow> year_loop fs body state state_path rest st')))"

fun state_loop :: "node \<Rightarrow> file_body \<Rightarrow> path \<Rightarrow> string list \<Rightarrow> walk_state \<Rightarrow> walk_state \<times> py_error option" where
  "state_loop fs body path [] st = (st, None)"
| "state_loop fs body path (state # rest) st =
     (if \<not> os_path_isdir fs (path @ [state]) then state_loop fs body path rest st
      else
        (case os_listdir fs (path @ [state]) of
           Inl e \<Rightarrow> (st, Some e)
         | Inr years \<Rightarrow>
             (case year_loop fs body state (path @ [state]) years st of
                (st', Some e) \<Rightarrow> (st', Some e)
              | (st', None) \<Rightarrow> state_loop fs body path rest st')))"

text \<open>
  Each extractor returns what it printed and either the data frame or the exception
  that left it.
\<close>

definition process_aggregated_transaction_data :: "node \<Rightarrow> path \<Rightarrow> msg list \<times> (py_error + row list)" where
  "process_aggregated_transaction_data fs base_path =
     (let path = base_path @ [''data'', ''aggregated'', ''transaction'', ''country'', ''india'', ''state''] in
      if \<not> os_path_exists fs path then ([PathNotFound path], Inr [])
      else
        (case os_listdir fs path of
           Inl e \<Rightarrow> ([], Inl e)
         | Inr states \<Rightarrow>
             (case state_loop fs transaction_file path states
                     \<lparr>acc_data = [], acc_out = [ProcessingStates (length states) ''aggregated transaction'']\<rparr> of
                (st, Some e) \<Rightarrow> (acc_out st, Inl e)
              | (st, None) \<Rightarrow> (acc_out st, Inr (acc_data st)))))"

definition process_aggregated_user_data :: "node \<Rightarrow> path \<Rightarrow> msg list \<times> (py_error + row list)" where
  "process_aggregated_user_data fs base_path =
     (let path = base_path @ [''data'', ''aggregated'', ''user'', ''country'', ''india'', ''state''] in
      if \<not> os_path_exists fs path then ([], Inr [])
      else
        (case os_listdir fs path of
           Inl e \<Rightarrow> ([], Inl e)
         | Inr states \<Rightarrow>
             (case state_loop fs user_file path states
                     \<lparr>acc_data = [], acc_out = [ProcessingStates (length states) ''aggregated user'']\<rparr> of
                (st, Some e) \<Rightarrow> (acc_out st, Inl e)
              | (st, None) \<Rightarrow> (acc_out st, Inr (acc_data st)))))"

definition process_map_transaction_data :: "node \<Rightarrow> path \<Rightarrow> msg list \<times> (py_error + row list)" where
  "process_map_transaction_data fs base_path =
     (let path = base_path @ [''data'', ''map'', ''transaction'', ''hover'', ''country'', ''india'', ''state''] in
      if \<not> os_path_exists fs path then ([], Inr [])
      else
        (case os_listdir fs path of
           Inl e \<Rightarrow> ([], Inl e)
         | Inr states \<Rightarrow>
             (case state_loop fs map_file path states
                     \<lparr>acc_data = [], acc_out = [ProcessingStates (length states) ''map transaction'']\<rparr> of
                (st, Some e) \<Rightarrow> (acc_out st, Inl e)
              | (st, None) \<Rightarrow> (acc_out st, Inr (acc_data st)))))"

section \<open>The relational store and its loader\<close>

text \<open>
  The store maps a table name to the rows of the table; a table that was never written
  is absent. \<open>sqlite3.connect\<close> creates the store when the file is missing, with no
  table in it. Writing to the store is taken to succeed.
\<close>

type_synonym db = "string \<rightharpoonup> row list"

text \<open>
  Modelled from the spec: the loader \<open>DataFrame.to_sql(name, conn, if_exists="replace",
  index=False)\<close>, a method of the pandas library that the repository calls and does not
  contain. Given a tabular dataset and a target table name it replaces the table's full
  contents (the table is dropped and created again, no row is merged).
\<close>

definition to_sql :: "row list \<Rightarrow> string \<Rightarrow> db \<Rightarrow> db" where
  "to_sql df name conn = conn(name \<mapsto> df)"

definition REPO_DIR :: path where
  "REPO_DIR = [''pulse'']"

text \<open>
  \<open>setup_database\<close> returns the store, what it printed and its Boolean result. An
  exception leaving an extractor is caught by \<open>except Exception\<close>: the tables written
  before it stay written, the later ones are not touched.
\<close>

definition setup_database :: "node \<Rightarrow> db \<Rightarrow> db \<times> msg list \<times> bool" where
  "setup_database fs conn =
     (if \<not> os_path_exists fs REPO_DIR then (conn, [SettingUpDatabase, RepositoryNotFound], False)
      else
        (case process_aggregated_transaction_data fs REPO_DIR of
           (out1, Inl e) \<Rightarrow>
             (conn,
              [SettingUpDatabase, ProcessingCategory ''aggregated transaction''] @ out1 @ [ErrorSettingUp e],
              False)
         | (out1, Inr df_agg_trans) \<Rightarrow>
             (let conn1 = (if df_agg_trans \<noteq> [] then to_sql df_agg_trans ''aggregated_transaction'' conn else conn);
                  printed1 = [SettingUpDatabase, ProcessingCategory ''aggregated transaction''] @ out1 @
                    (if df_agg_trans \<noteq> [] then [Loaded (length df_agg_trans) ''aggregated transaction''] else [])
              in
                (case process_aggregated_user_data fs REPO_DIR of
                   (out2, Inl e) \<Rightarrow>
                     (conn1, printed1 @ [ProcessingCategory ''aggregated user''] @ out2 @ [ErrorSettingUp e], False)
                 | (out2, Inr df_agg_user) \<Rightarrow>
                     (let conn2 = (if df_agg_user \<noteq> [] then to_sql df_agg_user ''aggregated_user'' conn1 else conn1);
                          printed2 = printed1 @ [ProcessingCategory ''aggregated user''] @ out2 @
                            (if df_agg_user \<noteq> [] then [Loaded (length df_agg_user) ''aggregated user''] else [])
                      in
                        (case process_map_transaction_data fs REPO_DIR of
                           (out3, Inl e) \<Rightarrow>
                             (conn2, printed2 @ [ProcessingCategory ''map transaction''] @ out3 @ [ErrorSettingUp e], False)
                         | (out3, Inr df_map_trans) \<Rightarrow>
                             (let conn3 = (if df_map_trans \<noteq> [] then to_sql df_map_trans ''map_transaction'' conn2 else conn2);
                                  printed3 = printed2 @ [ProcessingCategory ''map transaction''] @ out3 @
                                    (if df_map_trans \<noteq> [] then [Loaded (length df_map_trans) ''map transaction''] else [])
                              in (conn3, printed3 @ [SetupCompleted], True))))))))"

section \<open>The query service\<close>

text \<open>
  The SQL engine is a parameter: \<open>read_sql_query\<close> stands for connecting to the store
  and running \<open>pd.read_sql_query\<close>, and returns the result table or the exception
  raised. The body of \<open>get_data_from_db\<close> returns the table and what \<open>st.error\<close> shows.
\<close>

type_synonym engine = "string \<Rightarrow> db \<Rightarrow> py_error + row list"

definition get_data_from_db_body :: "engine \<Rightarrow> db \<Rightarrow> string \<Rightarrow> row list \<times> msg list" where
  "get_data_from_db_body read_sql_query conn query =
     (case read_sql_query query conn of
        Inr df \<Rightarrow> (df, [])
      | Inl e \<Rightarrow> ([], [StError e]))"

text \<open>
  Modelled from the spec: the decorator \<open>st.cache_data\<close> of the Streamlit library, which
  the repository applies and does not contain. It caches results keyed by the exact
  query text for the lifetime of the serving process: a call with a cached text
  returns the stored result without running the function, any other call runs the
  function and stores what it returned.
\<close>

type_synonym cache = "string \<rightharpoonup> row list \<times> msg list"

definition cache_data :: "(string \<Rightarrow> row list \<times> msg list) \<Rightarrow> cache \<Rightarrow> string \<Rightarrow> (row list \<times> msg list) \<times> cache" where
  "cache_data f c query =
     (case c query of
        Some r \<Rightarrow> (r, c)
      | None \<Rightarrow> (f query, c(query \<mapsto> f query)))"

definition get_data_from_db :: "engine \<Rightarrow> db \<Rightarrow> cache \<Rightarrow> string \<Rightarrow> (row list \<times> msg list) \<times> cache" where
  "get_data_from_db read_sql_query conn c query =
     cache_data (get_data_from_db_body read_sql_query conn) c query"

text \<open>
  A small engine to run the query service on concrete inputs: it answers
  \<open>SELECT * FROM t\<close> with the rows of table \<open>t\<close> and fails on a missing table and on
  any other text.
\<close>

definition select_star :: engine where
  "select_star query conn =
     (if take 14 query = ''SELECT * FROM '' then
        (case conn (drop 14 query) of None \<Rightarrow> Inl DatabaseError | Some rows \<Rightarrow> Inr rows)
      else Inl DatabaseError)"

section \<open>The payload shapes of the specification\<close>

text \<open>
  The specification speaks of entries, instrument lists and brand entries; these
  functions read them off a payload. \<open>dict_get\<close> is \<open>dict.get\<close>: the value under a key, or
  \<open>None\<close> when the key is missing.
\<close>

definition dict_get :: "json \<Rightarrow> string \<Rightarrow> json" where
  "dict_get v k =
     (case v of
        JObj kvs \<Rightarrow> (case map_of kvs k of Some x \<Rightarrow> x | None \<Rightarrow> JNull)
      | _ \<Rightarrow> JNull)"

text \<open>The payment-instrument list of an entry of the transaction-data list.\<close>

fun instruments :: "json \<Rightarrow> json list" where
  "instruments (JObj kvs) =
     (case map_of kvs ''paymentInstruments'' of Some (JArr xs) \<Rightarrow> xs | _ \<Rightarrow> [])"
| "instruments _ = []"

text \<open>
  A well-formed entry: an object whose payment-instrument list is missing, or empty,
  or starts with an object that has a count and an amount, the entry then having a
  name.
\<close>

fun valid_transaction_entry :: "json \<Rightarrow> bool" where
  "valid_transaction_entry (JObj kvs) =
     (case map_of kvs ''paymentInstruments'' of
        None \<Rightarrow> True
      | Some (JArr []) \<Rightarrow> True
      | Some (JArr (JObj first # rest)) \<Rightarrow>
          map_of kvs ''name'' \<noteq> None \<and> map_of first ''count'' \<noteq> None \<and> map_of first ''amount'' \<noteq> None
      | Some _ \<Rightarrow> False)"
| "valid_transaction_entry _ = False"

text \<open>The TransactionRecord of an entry: its name, and count and amount of its first instrument.\<close>

definition transaction_record :: "string \<Rightarrow> int \<Rightarrow> int \<Rightarrow> json \<Rightarrow> row" where
  "transaction_record state y q t =
     [(''state'', JStr state), (''year'', JInt y), (''quarter'', JInt q),
      (''transaction_type'', dict_get t ''name''),
      (''transaction_count'', dict_get (hd (instruments t)) ''count''),
      (''transaction_amount'', dict_get (hd (instruments t)) ''amount'')]"

text \<open>
  The per-device-brand breakdown under the payload's data key: the list under
  \<open>usersByDevice\<close>, empty when the key is missing or holds \<open>null\<close>. A brand entry is
  well formed when it is an object with a brand, a count and a percentage.
\<close>

definition users_by_device :: "(string \<times> json) list \<Rightarrow> json list" where
  "users_by_device dd = (case map_of dd ''usersByDevice'' of Some (JArr ds) \<Rightarrow> ds | _ \<Rightarrow> [])"

fun valid_device_entry :: "json \<Rightarrow> bool" where
  "valid_device_entry (JObj kvs) =
     (map_of kvs ''brand'' \<noteq> None \<and> map_of kvs ''count'' \<noteq> None \<and> map_of kvs ''percentage'' \<noteq> None)"
| "valid_device_entry _ = False"

definition valid_breakdown :: "(string \<times> json) list \<Rightarrow> bool" where
  "valid_breakdown dd =
     (case map_of dd ''usersByDevice'' of
        None \<Rightarrow> True
      | Some JNull \<Rightarrow> True
      | Some (JArr ds) \<Rightarrow> list_all valid_device_entry ds
      | Some _ \<Rightarrow> False)"

definition device_record :: "string \<Rightarrow> int \<Rightarrow> int \<Rightarrow> json \<Rightarrow> json \<Rightarrow> json \<Rightarrow> row" where
  "device_record state y q registered_users app_opens e =
     [(''state'', JStr state), (''year'', JInt y), (''quarter'', JInt q),
      (''registered_users'', registered_users), (''app_opens'', app_opens),
      (''brand'', dict_get e ''brand''), (''count'', dict_get e ''count''),
      (''percentage'', dict_get e ''percentage'')]"

definition other_record :: "string \<Rightarrow> int \<Rightarrow> int \<Rightarrow> json \<Rightarrow> json \<Rightarrow> row" where
  "other_record state y q registered_users app_opens =
     [(''state'', JStr state), (''year'', JInt y), (''quarter'', JInt q),
      (''registered_users'', registered_users), (''app_opens'', app_opens),
      (''brand'', JStr ''Other''), (''count'', JInt 0), (''percentage'', JInt 0)]"

text \<open>
  The payloads without the key \<open>k\<close> that are objects all the way: an object with no \<open>data\<close>
  key, or with an object under \<open>data\<close> that has no key \<open>k\<close>. The other payloads without
  the key (a payload that is no object, a \<open>data\<close> value that is \<open>null\<close> or a number) are
  not among them.
\<close>

fun object_without_key :: "string \<Rightarrow> json \<Rightarrow> bool" where
  "object_without_key k (JObj kvs) =
     (case map_of kvs ''data'' of
        None \<Rightarrow> True
      | Some (JObj dd) \<Rightarrow> map_of dd k = None
      | Some _ \<Rightarrow> False)"
| "object_without_key k _ = False"

section \<open>Concrete source trees\<close>

text \<open>\<open>under p n\<close> is the chain of directories \<open>p\<close> with \<open>n\<close> at its end.\<close>

fun under :: "path \<Rightarrow> node \<Rightarrow> node" where
  "under [] n = n"
| "under (c # cs) n = Dir [(c, under cs n)]"

definition transaction_root :: path where
  "transaction_root = [''pulse'', ''data'', ''aggregated'', ''transaction'', ''country'', ''india'', ''state'']"

definition user_root :: path where
  "user_root = [''pulse'', ''data'', ''aggregated'', ''user'', ''country'', ''india'', ''state'']"

definition recharge_payload :: "int \<Rightarrow> json" where
  "recharge_payload n =
     JObj [(''data'', JObj [(''transactionData'', JArr
       [JObj [(''name'', JStr ''Recharge''),
              (''paymentInstruments'', JArr [JObj [(''count'', JInt n), (''amount'', JInt (50 * n))]])]])])]"

text \<open>A tree with one state and two year directories; the name of the second is not a number.\<close>

definition tree_bad_year :: node where
  "tree_bad_year =
     under transaction_root
       (Dir [(''goa'', Dir [(''2023'', Dir [(''1.json'', File (Inr (recharge_payload 100)))]),
                            (''20x3'', Dir [(''1.json'', File (Inr (recharge_payload 7)))])])])"

text \<open>A tree with one transaction file, holding a payload with the given count.\<close>

definition tree_one_file :: "int \<Rightarrow> node" where
  "tree_one_file n =
     under transaction_root (Dir [(''goa'', Dir [(''2023'', Dir [(''1.json'', File (Inr (recharge_payload n)))])])])"

text \<open>A transaction file whose \<open>data\<close> is \<open>null\<close>, followed by a well-formed file.\<close>

definition tree_null_data :: node where
  "tree_null_data =
     under transaction_root
       (Dir [(''goa'', Dir [(''2023'', Dir
          [(''1.json'', File (Inr (JObj [(''data'', JNull)]))),
           (''2.json'', File (Inr (recharge_payload 100)))])])])"

text \<open>
  A user file with two brand entries, the second without its brand, followed by a
  well-formed file.
\<close>

definition user_payload :: "json list \<Rightarrow> json" where
  "user_payload ds =
     JObj [(''data'', JObj [(''aggregated'', JObj [(''registeredUsers'', JInt 500), (''appOpens'', JInt 900)]),
                            (''usersByDevice'', JArr ds)])]"

definition tree_partial_user :: node where
  "tree_partial_user =
     under user_root
       (Dir [(''goa'', Dir [(''2023'', Dir
          [(''1.json'', File (Inr (user_payload
              [JObj [(''brand'', JStr ''Xiaomi''), (''count'', JInt 300), (''percentage'', JFloat 0.6)],
               JObj [(''count'', JInt 200), (''percentage'', JFloat 0.4)]]))),
           (''2.json'', File (Inr (user_payload
              [JObj [(''brand'', JStr ''Vivo''), (''count'', JInt 500), (''percentage'', JInt 1)]])))])])])"

section \<open>Extraction of one payload\<close>

lemma transaction_entry_valid:
  assumes "py_int year = Inr y" and "py_int (split_dot_0 quarter_file) = Inr q"
    and "valid_transaction_entry t"
  shows "transaction_entry state year quarter_file t data =
           (data @ (if instruments t = [] then [] else [transaction_record state y q t]), None)"
  using assms
  by (cases t)
     (auto simp: transaction_entry_def transaction_row_def py_bind_def transaction_record_def dict_get_def
           split: option.splits json.splits list.splits)

lemma for_each_transaction_valid:
  assumes "py_int year = Inr y" and "py_int (split_dot_0 quarter_file) = Inr q"
    and "\<forall>t \<in> set ts. valid_transaction_entry t"
  shows "for_each (transaction_entry state year quarter_file) ts data
           = (data @ map (transaction_record state y q) (filter (\<lambda>t. instruments t \<noteq> []) ts), None)"
  using assms(3)
proof (induction ts arbitrary: data)
  case Nil
  show ?case by simp
next
  case (Cons t ts)
  then have "transaction_entry state year quarter_file t data =
      (data @ (if instruments t = [] then [] else [transaction_record state y q t]), None)"
    using assms(1,2) by (simp add: transaction_entry_valid)
  with Cons show ?case by simp
qed

text \<open>
  Claim C1. For a payload whose transaction-data list holds well-formed entries, in a
  file whose year directory and file name parse as integers, the transaction extractor
  appends exactly one record per entry whose payment-instrument list is non-empty, in
  order: its category is the entry's name, its count and amount are those of the first
  instrument. An entry with an empty (or missing) payment-instrument list contributes
  no record, and no exception is raised.
\<close>

theorem transaction_extraction:
  assumes "py_int year = Inr y" and "py_int (split_dot_0 quarter_file) = Inr q"
    and "map_of d ''data'' = Some (JObj dd)"
    and "map_of dd ''transactionData'' = Some (JArr ts)"
    and "\<forall>t \<in> set ts. valid_transaction_entry t"
  shows "transaction_file state year quarter_file (JObj d) data
           = (data @ map (transaction_record state y q) (filter (\<lambda>t. instruments t \<noteq> []) ts), None)"
  using assms
  by (simp add: transaction_file_def py_bind_def for_each_transaction_valid)

text \<open>
  The example of the specification, with a second entry whose instrument list is empty:
  one record, from the first instrument of the first entry.
\<close>

theorem transaction_extraction_witness:
  "transaction_file ''maharashtra'' ''2023'' ''1.json''
     (JObj [(''data'', JObj [(''transactionData'', JArr
        [JObj [(''name'', JStr ''Recharge''),
               (''paymentInstruments'',
                  JArr [JObj [(''count'', JInt 100), (''amount'', JFloat 5000)],
                        JObj [(''count'', JInt 1), (''amount'', JFloat 1)]])],
         JObj [(''name'', JStr ''Merchant''), (''paymentInstruments'', JArr [])]])])]) []
   = ([[(''state'', JStr ''maharashtra''), (''year'', JInt 2023), (''quarter'', JInt 1),
        (''transaction_type'', JStr ''Recharge''), (''transaction_count'', JInt 100),
        (''transaction_amount'', JFloat 5000)]], None)"
proof -
  have y: "py_int ''2023'' = Inr 2023" by code_simp
  have q: "py_int (split_dot_0 ''1.json'') = Inr 1" by code_simp
  have d: "map_of [(''data'', JObj [(''transactionData'', JArr
        [JObj [(''name'', JStr ''Recharge''),
               (''paymentInstruments'',
                  JArr [JObj [(''count'', JInt 100), (''amount'', JFloat 5000)],
                        JObj [(''count'', JInt 1), (''amount'', JFloat 1)]])],
         JObj [(''name'', JStr ''Merchant''), (''paymentInstruments'', JArr [])]])])] ''data''
      = Some (JObj [(''transactionData'', JArr
        [JObj [(''name'', JStr ''Recharge''),
               (''paymentInstruments'',
                  JArr [JObj [(''count'', JInt 100), (''amount'', JFloat 5000)],
                        JObj [(''count'', JInt 1), (''amount'', JFloat 1)]])],
         JObj [(''name'', JStr ''Merchant''), (''paymentInstruments'', JArr [])]])])" by simp
  show ?thesis
    using transaction_extraction [OF y q d, of _ "''maharashtra''" "[]"]
    by (simp add: transaction_record_def dict_get_def)
qed

lemma user_entry_valid:
  assumes "py_int year = Inr y" and "py_int (split_dot_0 quarter_file) = Inr q"
    and "valid_device_entry e"
  shows "user_entry state year quarter_file ru ao e data = (data @ [device_record state y q ru ao e], None)"
  using assms
  by (cases e)
     (auto simp: user_entry_def user_row_def py_bind_def device_record_def dict_get_def)

lemma for_each_user_valid:
  assumes "py_int year = Inr y" and "py_int (split_dot_0 quarter_file) = Inr q"
    and "list_all valid_device_entry ds"
  shows "for_each (user_entry state year quarter_file ru ao) ds data
           = (data @ map (device_record state y q ru ao) ds, None)"
  using assms(3)
proof (induction ds arbitrary: data)
  case Nil
  show ?case by simp
next
  case (Cons e ds)
  then have "user_entry state year quarter_file ru ao e data = (data @ [device_record state y q ru ao e], None)"
    using assms(1,2) by (simp add: user_entry_valid)
  with Cons show ?case by simp
qed

text \<open>
  Claim C4. For a user payload with top-level registered users and app opens, in a
  file whose year directory and file name parse as integers: when the per-device-brand
  breakdown is absent, null or an empty list, the user extractor appends exactly one
  record with brand "Other", count 0, percentage 0 and the payload's two totals; when
  the breakdown is a non-empty list of well-formed brand entries it appends one record
  per entry, in order, each repeating the two totals.
\<close>

theorem user_extraction:
  assumes "py_int year = Inr y" and "py_int (split_dot_0 quarter_file) = Inr q"
    and "map_of d ''data'' = Some (JObj dd)"
    and "map_of dd ''aggregated'' = Some (JObj ag)"
    and "map_of ag ''registeredUsers'' = Some registered_users"
    and "map_of ag ''appOpens'' = Some app_opens"
    and "valid_breakdown dd"
  shows "user_file state year quarter_file (JObj d) data =
           (data @ (if users_by_device dd = [] then [other_record state y q registered_users app_opens]
                    else map (device_record state y q registered_users app_opens) (users_by_device dd)),
            None)"
proof (cases "users_by_device dd = []")
  case True
  with assms show ?thesis
    by (auto simp: user_file_def py_bind_def user_other_row_def other_record_def
          users_by_device_def valid_breakdown_def split: option.splits json.splits)
next
  case False
  then obtain ds where ds: "map_of dd ''usersByDevice'' = Some (JArr ds)" and ne: "ds \<noteq> []"
    by (auto simp: users_by_device_def split: option.splits json.splits)
  with assms(7) have "list_all valid_device_entry ds"
    by (simp add: valid_breakdown_def)
  with assms ds ne show ?thesis
    by (simp add: user_file_def py_bind_def users_by_device_def for_each_user_valid)
qed

text \<open>
  A payload whose breakdown is \<open>null\<close> gives the one "Other" record; a payload with two
  brands gives two records.
\<close>

theorem user_extraction_witness:
  "user_file ''goa'' ''2021'' ''3.json''
     (JObj [(''data'', JObj [(''aggregated'', JObj [(''registeredUsers'', JInt 500), (''appOpens'', JInt 900)]),
                            (''usersByDevice'', JNull)])]) []
   = ([[(''state'', JStr ''goa''), (''year'', JInt 2021), (''quarter'', JInt 3),
        (''registered_users'', JInt 500), (''app_opens'', JInt 900),
        (''brand'', JStr ''Other''), (''count'', JInt 0), (''percentage'', JInt 0)]], None)
   \<and> user_file ''goa'' ''2021'' ''3.json''
     (JObj [(''data'', JObj [(''aggregated'', JObj [(''registeredUsers'', JInt 500), (''appOpens'', JInt 900)]),
                            (''usersByDevice'', JArr
                               [JObj [(''brand'', JStr ''Xiaomi''), (''count'', JInt 300), (''percentage'', JFloat 0.6)],
                                JObj [(''brand'', JStr ''Vivo''), (''count'', JInt 200), (''percentage'', JFloat 0.4)]])])]) []
   = ([[(''state'', JStr ''goa''), (''year'', JInt 2021), (''quarter'', JInt 3),
        (''registered_users'', JInt 500), (''app_opens'', JInt 900),
        (''brand'', JStr ''Xiaomi''), (''count'', JInt 300), (''percentage'', JFloat 0.6)],
       [(''state'', JStr ''goa''), (''year'', JInt 2021), (''quarter'', JInt 3),
        (''registered_users'', JInt 500), (''app_opens'', JInt 900),
        (''brand'', JStr ''Vivo''), (''count'', JInt 200), (''percentage'', JFloat 0.4)]], None)"
proof -
  have y: "py_int ''2021'' = Inr 2021" by code_simp
  have q: "py_int (split_dot_0 ''3.json'') = Inr 3" by code_simp
  have ag: "map_of [(''registeredUsers'', JInt 500), (''appOpens'', JInt 900)] ''registeredUsers'' = Some (JInt 500)"
    by simp
  have ao: "map_of [(''registeredUsers'', JInt 500), (''appOpens'', JInt 900)] ''appOpens'' = Some (JInt 900)"
    by simp
  have a: "user_file ''goa'' ''2021'' ''3.json''
     (JObj [(''data'', JObj [(''aggregated'', JObj [(''registeredUsers'', JInt 500), (''appOpens'', JInt 900)]),
                            (''usersByDevice'', JNull)])]) []
   = ([[(''state'', JStr ''goa''), (''year'', JInt 2021), (''quarter'', JInt 3),
        (''registered_users'', JInt 500), (''app_opens'', JInt 900),
        (''brand'', JStr ''Other''), (''count'', JInt 0), (''percentage'', JInt 0)]], None)"
    using user_extraction [OF y q _ _ ag ao, of _ "[(''aggregated'', JObj [(''registeredUsers'', JInt 500), (''appOpens'', JInt 900)]),
                            (''usersByDevice'', JNull)]" "''goa''" "[]"]
    by (simp add: valid_breakdown_def users_by_device_def other_record_def)
  have b: "user_file ''goa'' ''2021'' ''3.json''
     (JObj [(''data'', JObj [(''aggregated'', JObj [(''registeredUsers'', JInt 500), (''appOpens'', JInt 900)]),
                            (''usersByDevice'', JArr
                               [JObj [(''brand'', JStr ''Xiaomi''), (''count'', JInt 300), (''percentage'', JFloat 0.6)],
                                JObj [(''brand'', JStr ''Vivo''), (''count'', JInt 200), (''percentage'', JFloat 0.4)]])])]) []
   = ([[(''state'', JStr ''goa''), (''year'', JInt 2021), (''quarter'', JInt 3),
        (''registered_users'', JInt 500), (''app_opens'', JInt 900),
        (''brand'', JStr ''Xiaomi''), (''count'', JInt 300), (''percentage'', JFloat 0.6)],
       [(''state'', JStr ''goa''), (''year'', JInt 2021), (''quarter'', JInt 3),
        (''registered_users'', JInt 500), (''app_opens'', JInt 900),
        (''brand'', JStr ''Vivo''), (''count'', JInt 200), (''percentage'', JFloat 0.4)]], None)"
    using user_extraction [OF y q _ _ ag ao, of _ "[(''aggregated'', JObj [(''registeredUsers'', JInt 500), (''appOpens'', JInt 900)]),
                            (''usersByDevice'', JArr
                               [JObj [(''brand'', JStr ''Xiaomi''), (''count'', JInt 300), (''percentage'', JFloat 0.6)],
                                JObj [(''brand'', JStr ''Vivo''), (''count'', JInt 200), (''percentage'', JFloat 0.4)]])]" "''goa''" "[]"]
    by (simp add: valid_breakdown_def users_by_device_def device_record_def dict_get_def)
  from a b show ?thesis by (rule conjI)
qed

section \<open>Payloads without the expected substructure\<close>

lemma try_file_unchanged:
  "try_block fs body state year quarter_file quarter_path (acc_data st) = (acc_data st, None)
   \<Longrightarrow> try_file fs body state year quarter_file quarter_path st = (st, None)"
  by (simp add: try_file_def)

lemma transaction_file_lacks:
  "object_without_key ''transactionData'' d \<Longrightarrow> transaction_file state year quarter_file d data = (data, None)"
  by (cases d) (auto simp: transaction_file_def py_bind_def split: option.splits json.splits)

lemma map_file_lacks:
  "object_without_key ''hoverDataList'' d \<Longrightarrow> map_file state year quarter_file d data = (data, None)"
  by (cases d) (auto simp: map_file_def py_bind_def split: option.splits json.splits)

lemma user_file_lacks:
  "object_without_key ''aggregated'' d \<Longrightarrow> user_file state year quarter_file d data = (data, None)"
  by (cases d) (auto simp: user_file_def py_bind_def split: option.splits json.splits)

text \<open>
  When a file parses and its payload is an object without \<open>data\<close>, or with an object
  under \<open>data\<close> that has no \<open>transactionData\<close>, \<open>hoverDataList\<close> or \<open>aggregated\<close>, the loop over
  the quarter files goes on with the next file in the state it had: no row is added and
  nothing is printed.
\<close>

lemma object_without_key_silent:
  assumes "endswith quarter_file ''.json''"
    and "open_json_load fs (year_path @ [quarter_file]) = Inr d"
  shows "(object_without_key ''transactionData'' d \<longrightarrow>
            quarter_loop fs transaction_file state year year_path (quarter_file # rest) st
              = quarter_loop fs transaction_file state year year_path rest st)
       \<and> (object_without_key ''hoverDataList'' d \<longrightarrow>
            quarter_loop fs map_file state year year_path (quarter_file # rest) st
              = quarter_loop fs map_file state year year_path rest st)
       \<and> (object_without_key ''aggregated'' d \<longrightarrow>
            quarter_loop fs user_file state year year_path (quarter_file # rest) st
              = quarter_loop fs user_file state year year_path rest st)"
  using assms
  by (simp add: try_file_unchanged try_block_def transaction_file_lacks map_file_lacks user_file_lacks)

text \<open>A file holding \<open>{"data": {}}\<close> passes through each of the three extractors unnoticed.\<close>

lemma object_without_key_silent_example:
  "quarter_loop (Dir [(''1.json'', File (Inr (JObj [(''data'', JObj [])])))]) transaction_file
      ''goa'' ''2023'' [] [''1.json''] \<lparr>acc_data = [], acc_out = []\<rparr> = (\<lparr>acc_data = [], acc_out = []\<rparr>, None)
   \<and> quarter_loop (Dir [(''1.json'', File (Inr (JObj [(''data'', JObj [])])))]) map_file
      ''goa'' ''2023'' [] [''1.json''] \<lparr>acc_data = [], acc_out = []\<rparr> = (\<lparr>acc_data = [], acc_out = []\<rparr>, None)
   \<and> quarter_loop (Dir [(''1.json'', File (Inr (JObj [(''data'', JObj [])])))]) user_file
      ''goa'' ''2023'' [] [''1.json''] \<lparr>acc_data = [], acc_out = []\<rparr> = (\<lparr>acc_data = [], acc_out = []\<rparr>, None)"
proof -
  have e: "endswith ''1.json'' ''.json''"
    by (simp add: endswith_def)
  have l: "open_json_load (Dir [(''1.json'', File (Inr (JObj [(''data'', JObj [])])))]) ([] @ [''1.json''])
             = Inr (JObj [(''data'', JObj [])])"
    by (simp add: open_json_load_def)
  show ?thesis
    using object_without_key_silent [OF e l, of "''goa''" "''2023''" "[]" "\<lparr>acc_data = [], acc_out = []\<rparr>"]
    by simp
qed

text \<open>
  Claim C10, at a failing input. The first file of \<open>tree_null_data\<close> parses to
  \<open>{"data": null}\<close>, a payload without the transaction-data list. The guard evaluates
  \<open>'transactionData' in None\<close>, which raises TypeError; the \<open>except\<close> clause does not list
  it, so instead of passing over the file silently the extractor is left by the
  exception and the record of the well-formed \<open>2.json\<close> is never produced. The guards of
  the map and of the user extractor raise on the same payload.
\<close>

theorem null_data_aborts_extractor:
  "process_aggregated_transaction_data tree_null_data REPO_DIR
     = ([ProcessingStates 1 ''aggregated transaction''], Inl TypeError)
   \<and> transaction_file ''goa'' ''2023'' ''1.json'' (JObj [(''data'', JNull)]) [] = ([], Some TypeError)
   \<and> map_file ''goa'' ''2023'' ''1.json'' (JObj [(''data'', JNull)]) [] = ([], Some TypeError)
   \<and> user_file ''goa'' ''2023'' ''1.json'' (JObj [(''data'', JNull)]) [] = ([], Some TypeError)"
  by code_simp

section \<open>Files that fail\<close>

text \<open>The three \<open>try\<close> bodies only ever append to \<open>data\<close>, also when they raise.\<close>

lemma for_each_appends:
  assumes "\<And>x data. \<exists>new. fst (body x data) = data @ new"
  shows "\<exists>new. fst (for_each body xs data) = data @ new"
proof (induction xs arbitrary: data)
  case Nil
  show ?case by simp
next
  case (Cons x xs)
  obtain new1 where n1: "fst (body x data) = data @ new1"
    using assms by blast
  obtain new2 where n2: "fst (for_each body xs (data @ new1)) = (data @ new1) @ new2"
    using Cons.IH by blast
  show ?case
  proof (cases "snd (body x data)")
    case None
    with n1 n2 show ?thesis
      by (cases "body x data") auto
  next
    case (Some e)
    with n1 show ?thesis
      by (cases "body x data") auto
  qed
qed

lemma transaction_entry_appends: "\<exists>new. fst (transaction_entry state year quarter_file t data) = data @ new"
  by (simp add: transaction_entry_def split: sum.splits)

lemma user_entry_appends: "\<exists>new. fst (user_entry state year quarter_file ru ao e data) = data @ new"
  by (simp add: user_entry_def split: sum.splits)

lemma map_entry_appends: "\<exists>new. fst (map_entry state year quarter_file t data) = data @ new"
  by (simp add: map_entry_def split: sum.splits)

lemma transaction_file_appends: "\<exists>new. fst (transaction_file state year quarter_file d data) = data @ new"
  by (simp add: transaction_file_def for_each_appends [OF transaction_entry_appends] split: sum.splits)

lemma map_file_appends: "\<exists>new. fst (map_file state year quarter_file d data) = data @ new"
  by (simp add: map_file_def for_each_appends [OF map_entry_appends] split: sum.splits)

lemma user_file_appends: "\<exists>new. fst (user_file state year quarter_file d data) = data @ new"
  by (simp add: user_file_def for_each_appends [OF user_entry_appends] split: sum.splits)

lemma try_block_appends:
  assumes "body = transaction_file \<or> body = user_file \<or> body = map_file"
  shows "\<exists>new. fst (try_block fs body state year quarter_file p data) = data @ new
           \<and> (isl (open_json_load fs p) \<longrightarrow> new = [])"
  using assms transaction_file_appends user_file_appends map_file_appends
  by (auto simp: try_block_def split: sum.splits)

text \<open>
  Claim C2, as amended. When the \<open>try\<close> block of a file raises JSONDecodeError, KeyError
  or IndexError, the error is printed with the file's path and the loop goes on with
  the next file. The rows the file appended before the exception stay in the dataset
  and the rows appended by earlier files are untouched; when \<open>json.load\<close> itself raised,
  the file contributes no row.
\<close>

theorem failed_file_skipped:
  assumes "endswith quarter_file ''.json''"
    and "body = transaction_file \<or> body = user_file \<or> body = map_file"
    and "try_block fs body state year quarter_file (year_path @ [quarter_file]) (acc_data st) = (data', Some e)"
    and "caught e"
  shows "\<exists>new. data' = acc_data st @ new
           \<and> (open_json_load fs (year_path @ [quarter_file]) = Inl e \<longrightarrow> new = [])
           \<and> quarter_loop fs body state year year_path (quarter_file # rest) st
               = quarter_loop fs body state year year_path rest
                   (st\<lparr>acc_data := acc_data st @ new,
                      acc_out := acc_out st @ [ErrorProcessing (year_path @ [quarter_file]) e]\<rparr>)"
proof -
  obtain new where new: "fst (try_block fs body state year quarter_file (year_path @ [quarter_file]) (acc_data st))
        = acc_data st @ new"
      and load: "isl (open_json_load fs (year_path @ [quarter_file])) \<longrightarrow> new = []"
    using try_block_appends [OF assms(2)] by blast
  from new assms(3) have d: "data' = acc_data st @ new"
    by simp
  have "quarter_loop fs body state year year_path (quarter_file # rest) st
          = quarter_loop fs body state year year_path rest
              (st\<lparr>acc_data := data', acc_out := acc_out st @ [ErrorProcessing (year_path @ [quarter_file]) e]\<rparr>)"
    using assms(1,3,4) by (simp add: try_file_def)
  with d load show ?thesis
    by auto
qed

text \<open>
  The first user file of \<open>tree_partial_user\<close> raises KeyError at its second brand entry:
  the loop goes on with the second file, the row of the first entry kept and the error
  printed.
\<close>

theorem failed_file_skipped_witness:
  "quarter_loop tree_partial_user user_file ''goa'' ''2023'' (user_root @ [''goa'', ''2023''])
      [''1.json'', ''2.json''] \<lparr>acc_data = [], acc_out = []\<rparr>
   = quarter_loop tree_partial_user user_file ''goa'' ''2023'' (user_root @ [''goa'', ''2023''])
      [''2.json'']
      \<lparr>acc_data = [[(''state'', JStr ''goa''), (''year'', JInt 2023), (''quarter'', JInt 1),
                     (''registered_users'', JInt 500), (''app_opens'', JInt 900),
                     (''brand'', JStr ''Xiaomi''), (''count'', JInt 300), (''percentage'', JFloat 0.6)]],
       acc_out = [ErrorProcessing (user_root @ [''goa'', ''2023''] @ [''1.json'']) KeyError]\<rparr>"
proof -
  have e: "endswith ''1.json'' ''.json''"
    by (simp add: endswith_def)
  have b: "user_file = transaction_file \<or> user_file = user_file \<or> user_file = map_file"
    by simp
  have t: "try_block tree_partial_user user_file ''goa'' ''2023'' ''1.json''
             ((user_root @ [''goa'', ''2023'']) @ [''1.json'']) (acc_data \<lparr>acc_data = [], acc_out = []\<rparr>)
           = ([[(''state'', JStr ''goa''), (''year'', JInt 2023), (''quarter'', JInt 1),
                (''registered_users'', JInt 500), (''app_opens'', JInt 900),
                (''brand'', JStr ''Xiaomi''), (''count'', JInt 300), (''percentage'', JFloat 0.6)]],
              Some KeyError)"
    by code_simp
  have c: "caught KeyError"
    by (simp add: caught_def)
  from failed_file_skipped [OF e b t c, of "[''2.json'']"]
  show ?thesis
    by auto
qed

text \<open>
  Claim C2 as stated fails on the same tree: the file \<open>1.json\<close> fails on a missing
  required key and is reported, and the dataset still holds a row from it.
\<close>

theorem failed_file_leaves_rows:
  "process_aggregated_user_data tree_partial_user REPO_DIR =
     ([ProcessingStates 1 ''aggregated user'',
       ErrorProcessing (user_root @ [''goa'', ''2023'', ''1.json'']) KeyError],
      Inr [[(''state'', JStr ''goa''), (''year'', JInt 2023), (''quarter'', JInt 1),
            (''registered_users'', JInt 500), (''app_opens'', JInt 900),
            (''brand'', JStr ''Xiaomi''), (''count'', JInt 300), (''percentage'', JFloat 0.6)],
           [(''state'', JStr ''goa''), (''year'', JInt 2023), (''quarter'', JInt 2),
            (''registered_users'', JInt 500), (''app_opens'', JInt 900),
            (''brand'', JStr ''Vivo''), (''count'', JInt 500), (''percentage'', JInt 1)]])"
  by code_simp

text \<open>
  A mis-typed value raises TypeError, which the \<open>except\<close> clause does not list: the
  exception leaves the \<open>try\<close> statement, and with it the loops.
\<close>

lemma mistyped_payload_not_caught:
  "try_file (Dir [(''1.json'', File (Inr (JObj [(''data'', JObj [(''aggregated'', JArr [])])])))])
      user_file ''goa'' ''2023'' ''1.json'' [''1.json''] \<lparr>acc_data = [], acc_out = []\<rparr>
   = (\<lparr>acc_data = [], acc_out = []\<rparr>, Some TypeError)"
  by code_simp

section \<open>Names that are not numbers, roots that are missing\<close>

text \<open>
  Claim C3, at a failing input. In \<open>tree_bad_year\<close> the year directory \<open>20x3\<close> follows the
  well-formed \<open>2023\<close>. \<open>int('20x3')\<close> raises ValueError inside the \<open>try\<close> block; the
  \<open>except\<close> clause does not list it, so it leaves the extractor: the record of
  \<open>2023/1.json\<close> is lost with it, and \<open>setup_database\<close> returns False without writing
  the table.
\<close>

theorem malformed_year_aborts_extractor:
  "process_aggregated_transaction_data tree_bad_year REPO_DIR
     = ([ProcessingStates 1 ''aggregated transaction''], Inl ValueError)
   \<and> fst (setup_database tree_bad_year Map.empty) ''aggregated_transaction'' = None
   \<and> snd (snd (setup_database tree_bad_year Map.empty)) = False"
  by code_simp

text \<open>
  Claim C7, at a failing input. With no category root under \<open>pulse\<close>, each extractor
  returns an empty dataset and raises nothing, but only the transaction extractor
  prints that the path was not found: the user and the map extractor print nothing.
\<close>

theorem missing_root_not_reported:
  "process_aggregated_user_data (Dir [(''pulse'', Dir [])]) REPO_DIR = ([], Inr [])
   \<and> process_map_transaction_data (Dir [(''pulse'', Dir [])]) REPO_DIR = ([], Inr [])
   \<and> process_aggregated_transaction_data (Dir [(''pulse'', Dir [])]) REPO_DIR
       = ([PathNotFound [''pulse'', ''data'', ''aggregated'', ''transaction'', ''country'', ''india'', ''state'']], Inr [])"
  by code_simp

section \<open>Loading the store\<close>

text \<open>A category root lies under the repository directory: without the one, the other is missing.\<close>

lemma resolve_append:
  "resolve n (p @ q) = (case resolve n p of None \<Rightarrow> None | Some m \<Rightarrow> resolve m q)"
proof (induction p arbitrary: n)
  case Nil
  show ?case by simp
next
  case (Cons c cs)
  show ?case
    by (cases n) (simp_all add: Cons.IH split: option.splits)
qed

lemma missing_base_missing_root:
  "\<not> os_path_exists fs base \<Longrightarrow> \<not> os_path_exists fs (base @ p)"
  by (simp add: os_path_exists_def resolve_append)

lemma extractors_without_base:
  assumes "\<not> os_path_exists fs base"
  shows "snd (process_aggregated_transaction_data fs base) = Inr []"
    and "snd (process_aggregated_user_data fs base) = Inr []"
    and "snd (process_map_transaction_data fs base) = Inr []"
  using missing_base_missing_root [OF assms]
  by (simp_all add: process_aggregated_transaction_data_def process_aggregated_user_data_def
        process_map_transaction_data_def Let_def)

lemma setup_database_all_loaded:
  assumes "os_path_exists fs REPO_DIR"
    and "process_aggregated_transaction_data fs REPO_DIR = (out1, Inr df_agg_trans)"
    and "process_aggregated_user_data fs REPO_DIR = (out2, Inr df_agg_user)"
    and "process_map_transaction_data fs REPO_DIR = (out3, Inr df_map_trans)"
  shows "fst (setup_database fs conn) t =
           (if t = ''map_transaction'' \<and> df_map_trans \<noteq> [] then Some df_map_trans
            else if t = ''aggregated_user'' \<and> df_agg_user \<noteq> [] then Some df_agg_user
            else if t = ''aggregated_transaction'' \<and> df_agg_trans \<noteq> [] then Some df_agg_trans
            else conn t)"
  using assms by (simp add: setup_database_def Let_def to_sql_def)

text \<open>
  Claim C6. When the three extractors return their datasets, the store after
  \<open>setup_database\<close> holds, for each category, exactly the new dataset when that is
  non-empty (the former rows of the table are gone, none is merged), and what it held
  before (the former table, or no table) when the dataset is empty. No other table
  changes.
\<close>

theorem loader_replaces_or_skips:
  assumes "snd (process_aggregated_transaction_data fs REPO_DIR) = Inr df_agg_trans"
    and "snd (process_aggregated_user_data fs REPO_DIR) = Inr df_agg_user"
    and "snd (process_map_transaction_data fs REPO_DIR) = Inr df_map_trans"
  shows "fst (setup_database fs conn) =
           (\<lambda>t. if t = ''map_transaction'' \<and> df_map_trans \<noteq> [] then Some df_map_trans
                else if t = ''aggregated_user'' \<and> df_agg_user \<noteq> [] then Some df_agg_user
                else if t = ''aggregated_transaction'' \<and> df_agg_trans \<noteq> [] then Some df_agg_trans
                else conn t)"
proof (cases "os_path_exists fs REPO_DIR")
  case False
  from extractors_without_base [OF False] assms
  have "df_agg_trans = []" and "df_agg_user = []" and "df_map_trans = []"
    by simp_all
  with False show ?thesis
    by (simp add: setup_database_def)
next
  case True
  obtain out1 where p1: "process_aggregated_transaction_data fs REPO_DIR = (out1, Inr df_agg_trans)"
    using assms(1) by (cases "process_aggregated_transaction_data fs REPO_DIR") simp
  obtain out2 where p2: "process_aggregated_user_data fs REPO_DIR = (out2, Inr df_agg_user)"
    using assms(2) by (cases "process_aggregated_user_data fs REPO_DIR") simp
  obtain out3 where p3: "process_map_transaction_data fs REPO_DIR = (out3, Inr df_map_trans)"
    using assms(3) by (cases "process_map_transaction_data fs REPO_DIR") simp
  show ?thesis
    by (rule ext) (rule setup_database_all_loaded [OF True p1 p2 p3])
qed

text \<open>
  Claim C9. Running \<open>setup_database\<close> a second time over the same source tree, on the
  store the first run left, gives the same store as the first run (and prints and
  returns the same).
\<close>

theorem setup_database_idempotent:
  "setup_database fs (fst (setup_database fs conn)) = setup_database fs conn"
proof (cases "os_path_exists fs REPO_DIR")
  case False
  then show ?thesis
    by (simp add: setup_database_def)
next
  case True
  obtain out1 r1 where p1: "process_aggregated_transaction_data fs REPO_DIR = (out1, r1)"
    by (cases "process_aggregated_transaction_data fs REPO_DIR")
  obtain out2 r2 where p2: "process_aggregated_user_data fs REPO_DIR = (out2, r2)"
    by (cases "process_aggregated_user_data fs REPO_DIR")
  obtain out3 r3 where p3: "process_map_transaction_data fs REPO_DIR = (out3, r3)"
    by (cases "process_map_transaction_data fs REPO_DIR")
  show ?thesis
  proof (cases r1)
    case (Inl e)
    with True p1 show ?thesis
      by (simp add: setup_database_def)
  next
    case r1: (Inr df1)
    show ?thesis
    proof (cases r2)
      case (Inl e)
      with True p1 r1 p2 show ?thesis
        by (simp add: setup_database_def Let_def to_sql_def)
    next
      case r2: (Inr df2)
      show ?thesis
      proof (cases r3)
        case (Inl e)
        with True p1 r1 p2 r2 p3 show ?thesis
          by (simp add: setup_database_def Let_def to_sql_def fun_eq_iff)
      next
        case (Inr df3)
        with True p1 r1 p2 r2 p3 show ?thesis
          by (simp add: setup_database_def Let_def to_sql_def fun_eq_iff)
      qed
    qed
  qed
qed


text \<open>
  A store with two former tables, loaded from a tree that has transaction data only:
  the transaction table holds the one new row, the user table is as it was.
\<close>

theorem loader_replaces_or_skips_witness:
  "fst (setup_database (tree_one_file 100)
          [''aggregated_transaction'' \<mapsto> [[(''state'', JStr ''old'')], [(''state'', JStr ''older'')]],
           ''aggregated_user'' \<mapsto> [[(''brand'', JStr ''kept'')]]])
   = (\<lambda>t. if t = ''aggregated_transaction''
           then Some [[(''state'', JStr ''goa''), (''year'', JInt 2023), (''quarter'', JInt 1),
                       (''transaction_type'', JStr ''Recharge''), (''transaction_count'', JInt 100),
                       (''transaction_amount'', JInt 5000)]]
           else [''aggregated_transaction'' \<mapsto> [[(''state'', JStr ''old'')], [(''state'', JStr ''older'')]],
                 ''aggregated_user'' \<mapsto> [[(''brand'', JStr ''kept'')]]] t)"
proof -
  have p1: "snd (process_aggregated_transaction_data (tree_one_file 100) REPO_DIR)
              = Inr [[(''state'', JStr ''goa''), (''year'', JInt 2023), (''quarter'', JInt 1),
                      (''transaction_type'', JStr ''Recharge''), (''transaction_count'', JInt 100),
                      (''transaction_amount'', JInt 5000)]]"
    by code_simp
  have p2: "snd (process_aggregated_user_data (tree_one_file 100) REPO_DIR) = Inr []"
    by code_simp
  have p3: "snd (process_map_transaction_data (tree_one_file 100) REPO_DIR) = Inr []"
    by code_simp
  show ?thesis
    using loader_replaces_or_skips [OF p1 p2 p3]
    by (simp add: fun_eq_iff)
qed

text \<open>
  The two runs over \<open>tree_one_file 100\<close>, from an empty store.
\<close>

theorem setup_database_idempotent_witness:
  "setup_database (tree_one_file 100) (fst (setup_database (tree_one_file 100) Map.empty))
     = setup_database (tree_one_file 100) Map.empty"
  by (rule setup_database_idempotent)

section \<open>The query service\<close>

text \<open>
  Claim C8. When running the query against the store fails, the body of
  \<open>get_data_from_db\<close> returns an empty table and shows the error with \<open>st.error\<close>; so
  does the cached function on a query text that is not cached. The result is a value in
  every case: \<open>except Exception\<close> lets no failure of the engine out.
\<close>

theorem query_failure_reported:
  assumes "read_sql_query query conn = Inl e"
  shows "get_data_from_db_body read_sql_query conn query = ([], [StError e])
       \<and> (c query = None \<longrightarrow>
            fst (get_data_from_db read_sql_query conn c query) = ([], [StError e]))"
  using assms by (simp add: get_data_from_db_body_def get_data_from_db_def cache_data_def)

text \<open>
  A query on a table that the store does not have.
\<close>

theorem query_failure_reported_witness:
  "get_data_from_db_body select_star Map.empty ''SELECT * FROM aggregated_user'' = ([], [StError DatabaseError])
   \<and> fst (get_data_from_db select_star Map.empty Map.empty ''SELECT * FROM aggregated_user'')
       = ([], [StError DatabaseError])"
proof -
  have f: "select_star ''SELECT * FROM aggregated_user'' Map.empty = Inl DatabaseError"
    by (simp add: select_star_def)
  show ?thesis
    using query_failure_reported
      [of select_star "''SELECT * FROM aggregated_user''" Map.empty DatabaseError Map.empty] f
    by simp
qed

text \<open>
  Claim C5, as amended. The cache is keyed by the exact query text and nothing
  invalidates it: a query whose text is cached returns the cached result whatever the
  store holds, and the store is not read; a query whose text is not cached is run against
  the store as it is now and its result is cached under its text.
\<close>

theorem cache_not_invalidated:
  "(c query = Some r \<longrightarrow> get_data_from_db read_sql_query conn c query = (r, c))
   \<and> (c query = None \<longrightarrow>
        get_data_from_db read_sql_query conn c query
          = (get_data_from_db_body read_sql_query conn query,
             c(query \<mapsto> get_data_from_db_body read_sql_query conn query)))"
  by (simp add: get_data_from_db_def cache_data_def)

text \<open>
  A cached text returns the old rows although the table holds new ones; a text that is
  not cached reads the table.
\<close>

theorem cache_not_invalidated_witness:
  "get_data_from_db select_star [''t'' \<mapsto> [[(''state'', JStr ''new'')]]]
      [''SELECT * FROM t'' \<mapsto> ([[(''state'', JStr ''old'')]], [])] ''SELECT * FROM t''
     = (([[(''state'', JStr ''old'')]], []), [''SELECT * FROM t'' \<mapsto> ([[(''state'', JStr ''old'')]], [])])
   \<and> fst (get_data_from_db select_star [''t'' \<mapsto> [[(''state'', JStr ''new'')]]]
      Map.empty ''SELECT * FROM t'')
     = ([[(''state'', JStr ''new'')]], [])"
proof -
  have a: "get_data_from_db select_star [''t'' \<mapsto> [[(''state'', JStr ''new'')]]]
      [''SELECT * FROM t'' \<mapsto> ([[(''state'', JStr ''old'')]], [])] ''SELECT * FROM t''
     = (([[(''state'', JStr ''old'')]], []), [''SELECT * FROM t'' \<mapsto> ([[(''state'', JStr ''old'')]], [])])"
    using cache_not_invalidated [of "[''SELECT * FROM t'' \<mapsto> ([[(''state'', JStr ''old'')]], [])]"
        "''SELECT * FROM t''" "([[(''state'', JStr ''old'')]], [])" select_star
        "[''t'' \<mapsto> [[(''state'', JStr ''new'')]]]"]
    by simp
  have b: "fst (get_data_from_db select_star [''t'' \<mapsto> [[(''state'', JStr ''new'')]]]
      Map.empty ''SELECT * FROM t'')
     = ([[(''state'', JStr ''new'')]], [])"
    using cache_not_invalidated [of Map.empty "''SELECT * FROM t''" _ select_star
        "[''t'' \<mapsto> [[(''state'', JStr ''new'')]]]"]
    by (simp add: get_data_from_db_body_def select_star_def)
  from a b show ?thesis by (rule conjI)
qed

text \<open>
  Claim C5 as stated fails. The store is loaded from a tree with count 100 and queried;
  then the tree changes to count 7 and the store is reloaded by \<open>setup_database\<close>, which
  has no access to the cache. The same query still returns the row with count 100,
  while the store (read by the uncached body) holds the row with count 7.
\<close>

theorem stale_result_after_reload:
  "fst (get_data_from_db select_star
          (fst (setup_database (tree_one_file 7) (fst (setup_database (tree_one_file 100) Map.empty))))
          (snd (get_data_from_db select_star (fst (setup_database (tree_one_file 100) Map.empty))
                  Map.empty ''SELECT * FROM aggregated_transaction''))
          ''SELECT * FROM aggregated_transaction'')
     = ([[(''state'', JStr ''goa''), (''year'', JInt 2023), (''quarter'', JInt 1),
          (''transaction_type'', JStr ''Recharge''), (''transaction_count'', JInt 100),
          (''transaction_amount'', JInt 5000)]], [])
   \<and> get_data_from_db_body select_star
        (fst (setup_database (tree_one_file 7) (fst (setup_database (tree_one_file 100) Map.empty))))
        ''SELECT * FROM aggregated_transaction''
     = ([[(''state'', JStr ''goa''), (''year'', JInt 2023), (''quarter'', JInt 1),
          (''transaction_type'', JStr ''Recharge''), (''transaction_count'', JInt 7),
          (''transaction_amount'', JInt 350)]], [])"
  by code_simp

end
